theory Spec2Isabelle
  imports Main
begin

section \<open>Values, claim sets and failures\<close>

text \<open>
  The security module of the API (\<^verbatim>\<open>app/core/security.py\<close>) and the login use case
  (\<^verbatim>\<open>app/domain/use_cases/authentication_use_case.py\<close>) are embedded as HOL functions.

  A claim set is a Python \<^verbatim>\<open>Dict[str, Any]\<close>: a map from claim names to values. The
  values that occur are text and numbers; the three time claims are whole seconds since
  the epoch, the NumericDate that the token carries.
\<close>

datatype jval = JStr string | JNum int

type_synonym claims = "string \<rightharpoonup> jval"

text \<open>
  What a call can raise: FastAPI's \<^verbatim>\<open>HTTPException\<close> with its status code and detail,
  the two Python errors that ill-typed claim values provoke, and the \<^verbatim>\<open>ValueError\<close> of
  the password library.
\<close>

datatype failure =
    HTTPException (status_code: nat) (detail: string)
  | TypeError
  | AttributeError
  | ValueError

text \<open>Python truthiness of \<^verbatim>\<open>d.get(k)\<close>: \<^verbatim>\<open>None\<close>, the empty text and zero are falsy.\<close>

fun truthy :: "jval option \<Rightarrow> bool" where
  "truthy None = False"
| "truthy (Some (JStr s)) = (s \<noteq> [])"
| "truthy (Some (JNum n)) = (n \<noteq> 0)"

text \<open>\<^verbatim>\<open>app/core/config.py\<close>: the settings the security module reads.\<close>

record settings =
  secret_key :: string
  algorithm :: string
  access_token_expire_minutes :: int

section \<open>The token library\<close>

text \<open>
  \<^verbatim>\<open>jose.jwt\<close> is an external library. A compact token is modelled symbolically: it is
  either text that does not parse (with the parser's complaint), or a signed claim set that
  records the algorithm of its header and the key that produced its signature. A signature
  verifies under a key exactly when that key produced it.
\<close>

datatype token =
    Unparsable string
  | JWS (jws_alg: string) (jws_key: string) (jws_claims: claims)

datatype jose_error =
    JWTError string
  | ExpiredSignatureError string
  | JWTClaimsError string

fun str :: "jose_error \<Rightarrow> string" where
  "str (JWTError m) = m"
| "str (ExpiredSignatureError m) = m"
| "str (JWTClaimsError m) = m"

definition jwt_encode :: "claims \<Rightarrow> string \<Rightarrow> string \<Rightarrow> token" where
  "jwt_encode c key a = JWS a key c"

text \<open>
  The library validates the registered claims in this order: iat, nbf, exp, aud, iss, sub,
  jti, at\_hash. Each validator yields the error it raises, if any. A claim that is absent
  is not checked, except the issuer, which must equal the expected one. Text in a time
  claim is read as not an integer.
\<close>

definition validate_iat :: "claims \<Rightarrow> jose_error option" where
  "validate_iat c =
     (case c ''iat'' of
        Some (JStr _) \<Rightarrow> Some (JWTClaimsError ''Issued At claim (iat) must be an integer.'')
      | _ \<Rightarrow> None)"

definition validate_nbf :: "claims \<Rightarrow> int \<Rightarrow> jose_error option" where
  "validate_nbf c now =
     (case c ''nbf'' of
        None \<Rightarrow> None
      | Some (JStr _) \<Rightarrow> Some (JWTClaimsError ''Not Before claim (nbf) must be an integer.'')
      | Some (JNum nbf) \<Rightarrow>
          if nbf > now then Some (JWTClaimsError ''The token is not yet valid (nbf)'') else None)"

definition validate_exp :: "claims \<Rightarrow> int \<Rightarrow> jose_error option" where
  "validate_exp c now =
     (case c ''exp'' of
        None \<Rightarrow> None
      | Some (JStr _) \<Rightarrow> Some (JWTClaimsError ''Expiration Time claim (exp) must be an integer.'')
      | Some (JNum exp) \<Rightarrow>
          if exp < now then Some (ExpiredSignatureError ''Signature has expired.'') else None)"

definition validate_aud :: "claims \<Rightarrow> string \<Rightarrow> jose_error option" where
  "validate_aud c audience =
     (case c ''aud'' of
        None \<Rightarrow> None
      | Some (JNum _) \<Rightarrow> Some (JWTClaimsError ''Invalid claim format in token'')
      | Some (JStr a) \<Rightarrow>
          if a \<noteq> audience then Some (JWTClaimsError ''Invalid audience'') else None)"

definition validate_iss :: "claims \<Rightarrow> string \<Rightarrow> jose_error option" where
  "validate_iss c issuer =
     (if c ''iss'' \<noteq> Some (JStr issuer) then Some (JWTClaimsError ''Invalid issuer'') else None)"

definition validate_sub :: "claims \<Rightarrow> jose_error option" where
  "validate_sub c =
     (case c ''sub'' of
        Some (JNum _) \<Rightarrow> Some (JWTClaimsError ''Subject must be a string.'')
      | _ \<Rightarrow> None)"

definition validate_jti :: "claims \<Rightarrow> jose_error option" where
  "validate_jti c =
     (case c ''jti'' of
        Some (JNum _) \<Rightarrow> Some (JWTClaimsError ''JWT ID must be a string.'')
      | _ \<Rightarrow> None)"

definition validate_at_hash :: "claims \<Rightarrow> jose_error option" where
  "validate_at_hash c =
     (case c ''at_hash'' of
        None \<Rightarrow> None
      | Some _ \<Rightarrow>
          Some (JWTClaimsError ''No access_token provided to compare against at_hash claim.''))"

fun first_error :: "jose_error option list \<Rightarrow> jose_error option" where
  "first_error [] = None"
| "first_error (None # es) = first_error es"
| "first_error (Some e # es) = Some e"

definition validate_claims :: "claims \<Rightarrow> string \<Rightarrow> string \<Rightarrow> int \<Rightarrow> jose_error option" where
  "validate_claims c audience issuer now =
     first_error
       [validate_iat c, validate_nbf c now, validate_exp c now, validate_aud c audience,
        validate_iss c issuer, validate_sub c, validate_jti c, validate_at_hash c]"

text \<open>
  \<^verbatim>\<open>jwt.decode(token, key, algorithms=..., audience=..., issuer=...)\<close> at clock reading
  \<open>now\<close>: the structure, the algorithm of the header and the signature are checked first,
  then the claims.
\<close>

definition jwt_decode ::
  "token \<Rightarrow> string \<Rightarrow> string list \<Rightarrow> string \<Rightarrow> string \<Rightarrow> int \<Rightarrow> jose_error + claims" where
  "jwt_decode t key algorithms audience issuer now =
     (case t of
        Unparsable m \<Rightarrow> Inl (JWTError m)
      | JWS a k c \<Rightarrow>
          if a \<notin> set algorithms then Inl (JWTError ''The specified alg value is not allowed'')
          else if k \<noteq> key then Inl (JWTError ''Signature verification failed.'')
          else (case validate_claims c audience issuer now of
                  Some e \<Rightarrow> Inl e
                | None \<Rightarrow> Inr c))"

section \<open>The security module\<close>

text \<open>
  \<^verbatim>\<open>hashlib.sha256(s.encode())\<close> and the bcrypt context are library calls, taken as
  parameters: \<open>H s\<close> is the digest of \<open>s\<close>, a list of bytes; \<open>pv password hash\<close> is the
  answer of \<^verbatim>\<open>pwd_context.verify\<close> on a stored hash, and \<open>ph password\<close> is the hash that
  \<^verbatim>\<open>pwd_context.hash\<close> produced when the module was loaded.

  \<^verbatim>\<open>hexdigest()\<close> writes every byte of the digest as two lower-case hexadecimal digits.
\<close>

definition hex_digit :: "nat \<Rightarrow> char" where
  "hex_digit n = ''0123456789abcdef'' ! (n mod 16)"

definition hexdigest :: "string \<Rightarrow> string" where
  "hexdigest digest =
     concat (map (\<lambda>b. [hex_digit (of_char b div 16), hex_digit (of_char b)]) digest)"


text \<open>Text is ASCII when every character of it has a code below 128.\<close>

definition is_ascii :: "string \<Rightarrow> bool" where
  "is_ascii s = list_all (\<lambda>c. (of_char c :: nat) < 128) s"

record user_rec =
  u_username :: string
  u_role :: string
  u_password_hash :: string
  u_is_active :: bool
  u_role_hash :: string

type_synonym users_db = "string \<rightharpoonup> user_rec"

definition fake_users_db :: "(string \<Rightarrow> string) \<Rightarrow> (string \<Rightarrow> string) \<Rightarrow> users_db" where
  "fake_users_db H ph =
     [''usuario'' \<mapsto>
        \<lparr>u_username = ''usuario'', u_role = ''user'', u_password_hash = ph ''L0XuwPOdS5U'',
         u_is_active = True, u_role_hash = hexdigest (H ''user'')\<rparr>,
      ''admin'' \<mapsto>
        \<lparr>u_username = ''admin'', u_role = ''admin'', u_password_hash = ph ''JKSipm0YH'',
         u_is_active = True, u_role_hash = hexdigest (H ''admin'')\<rparr>]"

definition VALID_ROLES :: "(string \<Rightarrow> string) \<Rightarrow> (string \<rightharpoonup> string)" where
  "VALID_ROLES H = [''user'' \<mapsto> hexdigest (H ''user''), ''admin'' \<mapsto> hexdigest (H ''admin'')]"

text \<open>
  \<open>verify_password\<close> is called on the stored hashes, which \<^verbatim>\<open>pwd_context.hash\<close>
  produced; on them the verifier is taken to answer with a truth value.
\<close>

definition verify_password :: "(string \<Rightarrow> string \<Rightarrow> bool) \<Rightarrow> string \<Rightarrow> string \<Rightarrow> bool" where
  "verify_password pv plain_password hashed_password = pv plain_password hashed_password"

text \<open>
  \<^verbatim>\<open>pwd_context.verify\<close> called on a hash written in the source. A bcrypt hash is the
  identifier, the two digits of the cost, a dollar sign, 22 characters of salt and 31
  characters of checksum: 60 characters, or 59 with the oldest identifier. On text of
  another shape the library raises \<^verbatim>\<open>ValueError\<close>; on text of that shape it is taken to
  answer.
\<close>

definition bcrypt_shaped :: "string \<Rightarrow> bool" where
  "bcrypt_shaped h =
     ((take 4 h \<in> {''$2a$'', ''$2b$'', ''$2x$'', ''$2y$''} \<and> length h = 60)
      \<or> (take 3 h = ''$2$'' \<and> length h = 59))"

definition pwd_context_verify ::
  "(string \<Rightarrow> string \<Rightarrow> bool) \<Rightarrow> string \<Rightarrow> string \<Rightarrow> failure + bool" where
  "pwd_context_verify pv secret h =
     (if bcrypt_shaped h then Inr (pv secret h) else Inl ValueError)"

text \<open>
  \<^verbatim>\<open>secrets.compare_digest(a, b)\<close> with \<open>a\<close> text: it raises \<^verbatim>\<open>TypeError\<close> unless
  \<open>b\<close> is text too and both are ASCII, and is equality then.
\<close>

definition compare_digest :: "string \<Rightarrow> jval option \<Rightarrow> failure + bool" where
  "compare_digest a b =
     (case b of
        Some (JStr y) \<Rightarrow> if is_ascii a \<and> is_ascii y then Inr (a = y) else Inl TypeError
      | _ \<Rightarrow> Inl TypeError)"

text \<open>
  The arguments of \<open>validate_role\<close> are what \<^verbatim>\<open>d.get(k)\<close> returned, \<open>None\<close> being
  Python's \<^verbatim>\<open>None\<close>. \<^verbatim>\<open>VALID_ROLES.get(role)\<close> finds nothing for a key that is not
  text, and then \<^verbatim>\<open>compare_digest\<close> is not called.
\<close>

definition validate_role ::
  "(string \<Rightarrow> string) \<Rightarrow> jval option \<Rightarrow> jval option \<Rightarrow> failure + bool" where
  "validate_role H role role_hash =
     (case (case role of Some (JStr r) \<Rightarrow> VALID_ROLES H r | _ \<Rightarrow> None) of
        None \<Rightarrow> Inr False
      | Some expected_hash \<Rightarrow> compare_digest expected_hash role_hash)"

record identity =
  id_username :: string
  id_role :: string
  id_is_active :: bool

definition dummy_hash :: string where
  "dummy_hash = ''$2b$12$dummy.hash.to.prevent.timing.attacks''"

text \<open>
  \<open>authenticate_user\<close> returns the log of the calls it made to \<^verbatim>\<open>pwd_context.verify\<close>
  (password and hash, in order) together with its outcome: a failure raised, \<^verbatim>\<open>None\<close>,
  or the identity. For an absent user the answer of the verifier on the placeholder is
  discarded, but what the call raises is raised.
\<close>

definition authenticate_user ::
  "(string \<Rightarrow> string) \<Rightarrow> (string \<Rightarrow> string \<Rightarrow> bool) \<Rightarrow> users_db \<Rightarrow> string \<Rightarrow> string
     \<Rightarrow> (string \<times> string) list \<times> (failure + identity option)" where
  "authenticate_user H pv db username password =
     (case db username of
        None \<Rightarrow>
          (case pwd_context_verify pv password dummy_hash of
             Inl e \<Rightarrow> ([(password, dummy_hash)], Inl e)
           | Inr _ \<Rightarrow> ([(password, dummy_hash)], Inr None))
      | Some user \<Rightarrow>
          if \<not> u_is_active user then ([], Inr None)
          else if \<not> verify_password pv password (u_password_hash user)
          then ([(password, u_password_hash user)], Inr None)
          else (case validate_role H (Some (JStr (u_role user))) (Some (JStr (u_role_hash user))) of
                  Inl e \<Rightarrow> ([(password, u_password_hash user)], Inl e)
                | Inr ok \<Rightarrow>
                    if \<not> ok
                    then ([(password, u_password_hash user)],
                          Inl (HTTPException 500 ''Security violation detected''))
                    else ([(password, u_password_hash user)],
                          Inr (Some \<lparr>id_username = u_username user, id_role = u_role user,
                                     id_is_active = u_is_active user\<rparr>))))"

text \<open>
  The expiry that \<open>create_access_token\<close> computes at clock reading \<open>now\<close>.
  \<open>expires_delta\<close> is in seconds; a zero \<^verbatim>\<open>timedelta\<close> is falsy, so it selects the
  configured lifetime as \<^verbatim>\<open>None\<close> does.
\<close>

definition expire :: "settings \<Rightarrow> int \<Rightarrow> int option \<Rightarrow> int" where
  "expire cfg now expires_delta =
     (case expires_delta of
        None \<Rightarrow> now + 60 * access_token_expire_minutes cfg
      | Some d \<Rightarrow> if d \<noteq> 0 then now + d else now + 60 * access_token_expire_minutes cfg)"

text \<open>
  \<open>create_access_token\<close> at clock reading \<open>now\<close>, with \<open>jti\<close> the identifier that
  \<^verbatim>\<open>secrets.token_urlsafe(32)\<close> drew. \<^verbatim>\<open>to_encode["role"].encode()\<close> raises
  \<^verbatim>\<open>AttributeError\<close> on a number.
\<close>

definition create_access_token ::
  "(string \<Rightarrow> string) \<Rightarrow> settings \<Rightarrow> int \<Rightarrow> string \<Rightarrow> claims \<Rightarrow> int option \<Rightarrow> failure + token" where
  "create_access_token H cfg now jti data expires_delta =
     (let to_encode = data ++
            [''exp'' \<mapsto> JNum (expire cfg now expires_delta), ''iat'' \<mapsto> JNum now,
             ''nbf'' \<mapsto> JNum now, ''jti'' \<mapsto> JStr jti,
             ''iss'' \<mapsto> JStr ''teste-tivit-api'', ''aud'' \<mapsto> JStr ''teste-tivit-client'']
      in case to_encode ''role'' of
           None \<Rightarrow> Inr (jwt_encode to_encode (secret_key cfg) (algorithm cfg))
         | Some (JNum _) \<Rightarrow> Inl AttributeError
         | Some (JStr r) \<Rightarrow>
             Inr (jwt_encode (to_encode(''role_hash'' \<mapsto> JStr (hexdigest (H r))))
                    (secret_key cfg) (algorithm cfg)))"

text \<open>
  \<open>verify_token\<close> against the user table \<open>db\<close> at clock reading \<open>now\<close>. Every
  \<^verbatim>\<open>JWTError\<close> of the library becomes a 401 whose detail carries the library's message.
\<close>

definition verify_token ::
  "(string \<Rightarrow> string) \<Rightarrow> settings \<Rightarrow> users_db \<Rightarrow> int \<Rightarrow> token \<Rightarrow> failure + claims" where
  "verify_token H cfg db now t =
     (case jwt_decode t (secret_key cfg) [algorithm cfg]
             ''teste-tivit-client'' ''teste-tivit-api'' now of
        Inl e \<Rightarrow> Inl (HTTPException 401 (''Invalid token: '' @ str e))
      | Inr payload \<Rightarrow>
          if \<not> truthy (payload ''sub'')
          then Inl (HTTPException 401 ''Invalid token: missing subject'')
          else if \<not> truthy (payload ''role'') \<or> \<not> truthy (payload ''role_hash'')
          then Inl (HTTPException 401 ''Invalid token: missing role information'')
          else (case validate_role H (payload ''role'') (payload ''role_hash'') of
                  Inl e \<Rightarrow> Inl e
                | Inr ok \<Rightarrow>
                    if \<not> ok
                    then Inl (HTTPException 401 ''Invalid token: role tampering detected'')
                    else (case (case payload ''sub'' of
                                  Some (JStr username) \<Rightarrow> db username
                                | _ \<Rightarrow> None) of
                            None \<Rightarrow> Inl (HTTPException 401 ''User not found or inactive'')
                          | Some user \<Rightarrow>
                              if \<not> u_is_active user
                              then Inl (HTTPException 401 ''User not found or inactive'')
                              else Inr payload)))"

text \<open>
  Minting from \<open>data\<close> at clock reading \<open>t0\<close> and verifying the result at clock
  reading \<open>t1\<close>.
\<close>

definition mint_then_verify ::
  "(string \<Rightarrow> string) \<Rightarrow> settings \<Rightarrow> users_db \<Rightarrow> int \<Rightarrow> string \<Rightarrow> claims \<Rightarrow> int option \<Rightarrow> int
     \<Rightarrow> failure + claims" where
  "mint_then_verify H cfg db t0 jti data expires_delta t1 =
     (case create_access_token H cfg t0 jti data expires_delta of
        Inl e \<Rightarrow> Inl e
      | Inr t \<Rightarrow> verify_token H cfg db t1 t)"

section \<open>The login use case\<close>

text \<open>\<^verbatim>\<open>app/domain/entities/user.py\<close> and the in-memory repository.\<close>

datatype UserRole = USER | ADMIN

fun role_value :: "UserRole \<Rightarrow> string" where
  "role_value USER = ''user''"
| "role_value ADMIN = ''admin''"

record User =
  username :: string
  role :: UserRole
  is_active :: bool
  password_hash :: "string option"

type_synonym user_repository = "string \<rightharpoonup> User"

definition FakeUserRepository :: "(string \<Rightarrow> string) \<Rightarrow> user_repository" where
  "FakeUserRepository ph =
     [''usuario'' \<mapsto>
        \<lparr>username = ''usuario'', role = USER, is_active = True,
         password_hash = Some (ph ''L0XuwPOdS5U'')\<rparr>,
      ''admin'' \<mapsto>
        \<lparr>username = ''admin'', role = ADMIN, is_active = True,
         password_hash = Some (ph ''JKSipm0YH'')\<rparr>]"

definition get_by_username :: "user_repository \<Rightarrow> string \<Rightarrow> User option" where
  "get_by_username repo name = repo name"

record auth_result =
  access_token :: token
  token_type :: string
  user :: identity

text \<open>
  \<^verbatim>\<open>AuthenticationUseCase.authenticate\<close>, the function behind the login routes. It has
  no \<^verbatim>\<open>raise\<close> of its own; what it can raise is what \<open>create_access_token\<close> raises.
\<close>

definition authenticate ::
  "(string \<Rightarrow> string) \<Rightarrow> (string \<Rightarrow> string \<Rightarrow> bool) \<Rightarrow> settings \<Rightarrow> int \<Rightarrow> string
     \<Rightarrow> user_repository \<Rightarrow> string \<Rightarrow> string \<Rightarrow> failure + auth_result option" where
  "authenticate H pv cfg now jti repo name password =
     (case get_by_username repo name of
        None \<Rightarrow> Inr None
      | Some u \<Rightarrow>
          if \<not> is_active u then Inr None
          else if (case password_hash u of
                     None \<Rightarrow> True
                   | Some h \<Rightarrow> h = [] \<or> \<not> verify_password pv password h)
          then Inr None
          else (case create_access_token H cfg now jti
                       [''sub'' \<mapsto> JStr (username u), ''role'' \<mapsto> JStr (role_value (role u))]
                       None of
                  Inl e \<Rightarrow> Inl e
                | Inr tok \<Rightarrow>
                    Inr (Some \<lparr>access_token = tok, token_type = ''bearer'',
                               user = \<lparr>id_username = username u,
                                       id_role = role_value (role u),
                                       id_is_active = is_active u\<rparr>\<rparr>)))"

section \<open>A concrete environment for the examples\<close>

text \<open>
  The examples run with the SHA-256 digests of the role names they use, a stand-in for
  bcrypt that keeps the password readable, and the default settings of
  \<^verbatim>\<open>app/core/config.py\<close>.
\<close>

definition sha256 :: "string \<Rightarrow> string" where
  "sha256 s =
     (if s = ''user''
      then [CHR 0x04, CHR 0xf8, CHR 0x99, CHR 0x6d, CHR 0xa7, CHR 0x63, CHR 0xb7, CHR 0xa9,
           CHR 0x69, CHR 0xb1, CHR 0x02, CHR 0x8e, CHR 0xe3, CHR 0x00, CHR 0x75, CHR 0x69,
           CHR 0xea, CHR 0xf3, CHR 0xa6, CHR 0x35, CHR 0x48, CHR 0x6d, CHR 0xda, CHR 0xb2,
           CHR 0x11, CHR 0xd5, CHR 0x12, CHR 0xc8, CHR 0x5b, CHR 0x9d, CHR 0xf8, CHR 0xfb]
      else if s = ''admin''
      then [CHR 0x8c, CHR 0x69, CHR 0x76, CHR 0xe5, CHR 0xb5, CHR 0x41, CHR 0x04, CHR 0x15,
           CHR 0xbd, CHR 0xe9, CHR 0x08, CHR 0xbd, CHR 0x4d, CHR 0xee, CHR 0x15, CHR 0xdf,
           CHR 0xb1, CHR 0x67, CHR 0xa9, CHR 0xc8, CHR 0x73, CHR 0xfc, CHR 0x4b, CHR 0xb8,
           CHR 0xa8, CHR 0x1f, CHR 0x6f, CHR 0x2a, CHR 0xb4, CHR 0x48, CHR 0xa9, CHR 0x18]
      else if s = ''guest''
      then [CHR 0x84, CHR 0x98, CHR 0x3c, CHR 0x60, CHR 0xf7, CHR 0xda, CHR 0xad, CHR 0xc1,
           CHR 0xcb, CHR 0x86, CHR 0x98, CHR 0x62, CHR 0x1f, CHR 0x80, CHR 0x2c, CHR 0x0d,
           CHR 0x9f, CHR 0x9a, CHR 0x3c, CHR 0x3c, CHR 0x29, CHR 0x5c, CHR 0x81, CHR 0x07,
           CHR 0x48, CHR 0xfb, CHR 0x04, CHR 0x81, CHR 0x15, CHR 0xc1, CHR 0x86, CHR 0xec]
      else ''sha256:'' @ s)"

text \<open>The tag of a role name: its digest as \<^verbatim>\<open>hexdigest()\<close> prints it.\<close>

definition sha256_hex :: "string \<Rightarrow> string" where
  "sha256_hex s = hexdigest (sha256 s)"

definition bcrypt_hash :: "string \<Rightarrow> string" where
  "bcrypt_hash password = ''$2b$12$'' @ password"

definition bcrypt_verify :: "string \<Rightarrow> string \<Rightarrow> bool" where
  "bcrypt_verify password h = (h = ''$2b$12$'' @ password)"

definition default_settings :: settings where
  "default_settings =
     \<lparr>secret_key = ''your-secret-key-here-change-in-production'', algorithm = ''HS256'',
      access_token_expire_minutes = 30\<rparr>"

text \<open>
  The claim set that \<open>create_access_token\<close> builds for a subject and a role at second
  1000 under the default settings, with \<open>jti-1\<close> as the identifier drawn.
\<close>

definition minted_claims :: "string \<Rightarrow> string \<Rightarrow> claims" where
  "minted_claims u r =
     [''sub'' \<mapsto> JStr u, ''role'' \<mapsto> JStr r, ''exp'' \<mapsto> JNum 2800, ''iat'' \<mapsto> JNum 1000,
      ''nbf'' \<mapsto> JNum 1000, ''jti'' \<mapsto> JStr ''jti-1'', ''iss'' \<mapsto> JStr ''teste-tivit-api'',
      ''aud'' \<mapsto> JStr ''teste-tivit-client'', ''role_hash'' \<mapsto> JStr (sha256_hex r)]"

text \<open>A token signed with the configured key, and one signed with a key of the attacker.\<close>

definition signed :: "claims \<Rightarrow> token" where
  "signed c = JWS (algorithm default_settings) (secret_key default_settings) c"

definition forged :: "claims \<Rightarrow> token" where
  "forged c = JWS ''HS256'' ''attacker-key'' c"

text \<open>
  The user table after the record of \<open>usuario\<close> was edited: the role raised to
  \<open>admin\<close> with the stored tag left as it was, and the account active or not.
\<close>

definition tampered_db :: "(string \<Rightarrow> string) \<Rightarrow> (string \<Rightarrow> string) \<Rightarrow> bool \<Rightarrow> users_db" where
  "tampered_db H ph active =
     (fake_users_db H ph)(''usuario'' \<mapsto>
        \<lparr>u_username = ''usuario'', u_role = ''admin'', u_password_hash = ph ''L0XuwPOdS5U'',
         u_is_active = active, u_role_hash = hexdigest (H ''user'')\<rparr>)"

text \<open>The repository of the use case after the same edit of the role.\<close>

definition tampered_repository :: "(string \<Rightarrow> string) \<Rightarrow> user_repository" where
  "tampered_repository ph =
     (FakeUserRepository ph)(''usuario'' \<mapsto>
        \<lparr>username = ''usuario'', role = ADMIN, is_active = True,
         password_hash = Some (ph ''L0XuwPOdS5U'')\<rparr>)"

text \<open>The user table after \<open>usuario\<close> was deactivated.\<close>

definition deactivated_db :: "(string \<Rightarrow> string) \<Rightarrow> (string \<Rightarrow> string) \<Rightarrow> users_db" where
  "deactivated_db H ph =
     (fake_users_db H ph)(''usuario'' \<mapsto>
        \<lparr>u_username = ''usuario'', u_role = ''user'', u_password_hash = ph ''L0XuwPOdS5U'',
         u_is_active = False, u_role_hash = hexdigest (H ''user'')\<rparr>)"

section \<open>Facts about the library model and the role table\<close>

text \<open>A hex digest is ASCII, is empty only for an empty digest, and determines the digest.\<close>

lemma hex_digit_cases:
  assumes "(n::nat) < 16"
  shows "n \<in> {0, 1, 2, 3, 4, 5, 6, 7, 8, 9, 10, 11, 12, 13, 14, 15}"
  using assms by (simp, arith)

lemma hex_digit_ascii: "of_char (hex_digit n) < (128::nat)"
  using hex_digit_cases[of "n mod 16"] by (auto simp: hex_digit_def)



lemma hexdigest_ascii: "is_ascii (hexdigest d)"
  by (induction d) (simp_all add: is_ascii_def hexdigest_def hex_digit_ascii)

lemma hexdigest_Nil_iff: "hexdigest d = [] \<longleftrightarrow> d = []"
  by (cases d) (simp_all add: hexdigest_def)



text \<open>The digests of the examples in hexadecimal, as \<^verbatim>\<open>hexdigest()\<close> prints them.\<close>

lemma sha256_hex_user:
  "hexdigest (sha256 ''user'')
     = ''04f8996da763b7a969b1028ee3007569eaf3a635486ddab211d512c85b9df8fb''"
  by (simp add: sha256_def hexdigest_def hex_digit_def)

lemma sha256_hex_admin:
  "hexdigest (sha256 ''admin'')
     = ''8c6976e5b5410415bde908bd4dee15dfb167a9c873fc4bb8a81f6f2ab448a918''"
  by (simp add: sha256_def hexdigest_def hex_digit_def)

lemma sha256_hex_guest:
  "hexdigest (sha256 ''guest'')
     = ''84983c60f7daadc1cb8698621f802c0d9f9a3c3c295c810748fb048115c186ec''"
  by (simp add: sha256_def hexdigest_def hex_digit_def)

lemma sha256_hex_ascii:
  "is_ascii ''04f8996da763b7a969b1028ee3007569eaf3a635486ddab211d512c85b9df8fb''"
  "is_ascii ''8c6976e5b5410415bde908bd4dee15dfb167a9c873fc4bb8a81f6f2ab448a918''"
  "is_ascii ''84983c60f7daadc1cb8698621f802c0d9f9a3c3c295c810748fb048115c186ec''"
  using hexdigest_ascii[of "sha256 ''user''"] hexdigest_ascii[of "sha256 ''admin''"]
    hexdigest_ascii[of "sha256 ''guest''"]
  by (simp_all only: sha256_hex_user sha256_hex_admin sha256_hex_guest)

text \<open>The placeholder of \<open>authenticate_user\<close> has 43 characters, not the 60 of a bcrypt hash.\<close>

lemma dummy_hash_not_bcrypt: "\<not> bcrypt_shaped dummy_hash"
  by (simp add: bcrypt_shaped_def dummy_hash_def)

lemma VALID_ROLES_Some:
  "VALID_ROLES H r = Some h \<longleftrightarrow>
     (r = ''user'' \<and> h = hexdigest (H ''user'')) \<or> (r = ''admin'' \<and> h = hexdigest (H ''admin''))"
  by (auto simp: VALID_ROLES_def)

lemma VALID_ROLES_ascii: "VALID_ROLES H r = Some h \<Longrightarrow> is_ascii h"
  by (auto simp: VALID_ROLES_Some hexdigest_ascii)

text \<open>What \<open>validate_role\<close> answers on text, by the role table.\<close>

lemma validate_role_text:
  "validate_role H (Some (JStr r)) (Some (JStr h)) =
     (case VALID_ROLES H r of
        None \<Rightarrow> Inr False
      | Some e \<Rightarrow> if is_ascii h then Inr (e = h) else Inl TypeError)"
  by (auto simp: validate_role_def compare_digest_def VALID_ROLES_ascii split: option.splits)

lemma validate_role_True:
  assumes "validate_role H x y = Inr True"
  shows "\<exists>r. (r = ''user'' \<or> r = ''admin'') \<and> x = Some (JStr r)
             \<and> y = Some (JStr (hexdigest (H r)))"
  using assms
  by (auto simp: validate_role_def compare_digest_def VALID_ROLES_def
      split: option.splits jval.splits if_splits)

lemma VALID_ROLES_None: "VALID_ROLES H r = None \<longleftrightarrow> r \<noteq> ''user'' \<and> r \<noteq> ''admin''"
  by (auto simp: VALID_ROLES_def)

lemmas validators =
  validate_claims_def validate_iat_def validate_nbf_def validate_exp_def validate_aud_def
  validate_iss_def validate_sub_def validate_jti_def validate_at_hash_def

lemmas verify_defs =
  verify_token_def jwt_decode_def validators validate_role_text VALID_ROLES_def

lemmas mint_defs =
  mint_then_verify_def create_access_token_def jwt_encode_def expire_def Let_def

lemmas example_env =
  sha256_hex_def sha256_hex_user sha256_hex_admin sha256_hex_guest sha256_hex_ascii
  bcrypt_hash_def bcrypt_verify_def default_settings_def fake_users_db_def
  signed_def forged_def tampered_db_def tampered_repository_def deactivated_db_def
  FakeUserRepository_def minted_claims_def

text \<open>
  The claim set that \<open>create_access_token\<close> builds from a subject and a role passes the
  library's claim validation from the moment of minting up to the expiry.
\<close>

lemma minted_claims_valid:
  assumes "t0 \<le> t1" "t1 \<le> expire cfg t0 delta"
  shows "validate_claims
           (([''sub'' \<mapsto> JStr u, ''role'' \<mapsto> JStr r] ++
             [''exp'' \<mapsto> JNum (expire cfg t0 delta), ''iat'' \<mapsto> JNum t0,
              ''nbf'' \<mapsto> JNum t0, ''jti'' \<mapsto> JStr jti,
              ''iss'' \<mapsto> JStr ''teste-tivit-api'',
              ''aud'' \<mapsto> JStr ''teste-tivit-client''])(''role_hash'' \<mapsto> JStr h))
           ''teste-tivit-client'' ''teste-tivit-api'' t1 = None"
  using assms by (simp add: validators)

text \<open>
  A token whose signature was made with another key never reaches the checks of
  \<open>verify_token\<close> itself: the decoding step rejects it.
\<close>

lemma foreign_key_rejected_by_decode:
  assumes "k \<noteq> secret_key cfg"
  shows "\<exists>m. verify_token H cfg db now (JWS a k c) = Inl (HTTPException 401 m)
           \<and> m \<noteq> ''Invalid token: role tampering detected''"
  using assms by (simp add: verify_token_def jwt_decode_def)

text \<open>An identity that \<open>authenticate_user\<close> returns has a role of the role table.\<close>

lemma authenticate_user_role:
  assumes "snd (authenticate_user H pv db name password) = Inr (Some ident)"
  shows "VALID_ROLES H (id_role ident) \<noteq> None"
  using assms
  by (auto simp: authenticate_user_def validate_role_text pwd_context_verify_def
      split: option.splits if_splits sum.splits)

text \<open>What \<open>verify_token\<close> returns is the decoded payload, and its role is a valid one.\<close>

lemma verify_token_accepts_valid_role:
  assumes "verify_token H cfg db now t = Inr q"
  shows "q ''role'' = Some (JStr ''user'') \<or> q ''role'' = Some (JStr ''admin'')"
proof -
  from assms obtain p where
    d: "jwt_decode t (secret_key cfg) [algorithm cfg] ''teste-tivit-client'' ''teste-tivit-api'' now
          = Inr p"
    by (auto simp: verify_token_def split: sum.splits)
  from assms d have "q = p" and "validate_role H (p ''role'') (p ''role_hash'') = Inr True"
    by (auto simp: verify_token_def split: sum.splits if_splits option.splits jval.splits)
  then show ?thesis
    using validate_role_True[of H "p ''role''" "p ''role_hash''"] by auto
qed


text \<open>
  The token that the login use case hands out carries the same nine claims, with the tag
  of the role of the user entity.
\<close>

lemma login_token_claims:
  assumes "authenticate H pv cfg now jti repo name password = Inr (Some res)"
  shows "\<exists>c. access_token res = jwt_encode c (secret_key cfg) (algorithm cfg)
           \<and> dom c = {''sub'', ''role'', ''role_hash'', ''exp'', ''iat'', ''nbf'', ''jti'', ''iss'',
                       ''aud''}
           \<and> c ''sub'' = Some (JStr (id_username (user res)))
           \<and> c ''role'' = Some (JStr (id_role (user res)))
           \<and> c ''iss'' = Some (JStr ''teste-tivit-api'')
           \<and> c ''aud'' = Some (JStr ''teste-tivit-client'')
           \<and> c ''iat'' = Some (JNum now)
           \<and> c ''nbf'' = c ''iat''
           \<and> c ''exp'' = Some (JNum (now + 60 * access_token_expire_minutes cfg))
           \<and> (\<exists>h. VALID_ROLES H (id_role (user res)) = Some h
                    \<and> c ''role_hash'' = Some (JStr h))"
proof -
  from assms obtain u where u: "repo name = Some u"
    and res: "res = \<lparr>access_token =
                  jwt_encode
                    [''sub'' \<mapsto> JStr (username u), ''role'' \<mapsto> JStr (role_value (role u)),
                     ''exp'' \<mapsto> JNum (now + 60 * access_token_expire_minutes cfg),
                     ''iat'' \<mapsto> JNum now, ''nbf'' \<mapsto> JNum now, ''jti'' \<mapsto> JStr jti,
                     ''iss'' \<mapsto> JStr ''teste-tivit-api'',
                     ''aud'' \<mapsto> JStr ''teste-tivit-client'',
                     ''role_hash'' \<mapsto> JStr (hexdigest (H (role_value (role u))))]
                    (secret_key cfg) (algorithm cfg),
                token_type = ''bearer'',
                user = \<lparr>id_username = username u, id_role = role_value (role u),
                        id_is_active = is_active u\<rparr>\<rparr>"
    by (auto simp: authenticate_def get_by_username_def create_access_token_def expire_def Let_def
        split: option.splits if_splits)
  show ?thesis
    unfolding res
    by (intro exI[where x = "[''sub'' \<mapsto> JStr (username u),
          ''role'' \<mapsto> JStr (role_value (role u)),
          ''exp'' \<mapsto> JNum (now + 60 * access_token_expire_minutes cfg),
          ''iat'' \<mapsto> JNum now, ''nbf'' \<mapsto> JNum now, ''jti'' \<mapsto> JStr jti,
          ''iss'' \<mapsto> JStr ''teste-tivit-api'', ''aud'' \<mapsto> JStr ''teste-tivit-client'',
          ''role_hash'' \<mapsto> JStr (hexdigest (H (role_value (role u))))]"])
       (cases "role u"; auto simp: VALID_ROLES_def)
qed

section \<open>Minting and verifying\<close>

text \<open>
  C1, as amended. For every identity whose role is \<open>user\<close> or \<open>admin\<close> and whose
  username is non-empty and names an active record of the user table at verification
  time, the token minted from the claims sub = username, role = role verifies at every
  clock reading from the minting up to the expiry, and the payload returned carries that
  username as sub and that role as role. The digest of the role is non-empty, as a
  SHA-256 digest is.
\<close>

theorem verify_mint_roundtrip:
  assumes role: "r = ''user'' \<or> r = ''admin''"
    and digest: "H r \<noteq> []"
    and name: "u \<noteq> []"
    and stored: "db u = Some rec" "u_is_active rec"
    and time: "t0 \<le> t1" "t1 \<le> expire cfg t0 delta"
  shows "\<exists>p. mint_then_verify H cfg db t0 jti [''sub'' \<mapsto> JStr u, ''role'' \<mapsto> JStr r] delta t1
               = Inr p
           \<and> p ''sub'' = Some (JStr u) \<and> p ''role'' = Some (JStr r)"
proof -
  have v: "validate_role H (Some (JStr r)) (Some (JStr (hexdigest (H r)))) = Inr True"
    using role by (auto simp: validate_role_text VALID_ROLES_def hexdigest_ascii)
  have tag: "hexdigest (H r) \<noteq> []"
    using digest by (simp add: hexdigest_Nil_iff)
  show ?thesis
    using role tag name stored v minted_claims_valid[OF time, of u r jti "hexdigest (H r)"]
    by (auto simp add: mint_then_verify_def create_access_token_def verify_token_def
        jwt_encode_def jwt_decode_def Let_def)
qed

text \<open>
  The user \<open>usuario\<close> of the shipped table, minted at second 1000 with the default
  lifetime of 30 minutes and verified a minute later.
\<close>

theorem verify_mint_roundtrip_witness:
  "\<exists>p. mint_then_verify sha256 default_settings (fake_users_db sha256 bcrypt_hash) 1000
          ''jti-1'' [''sub'' \<mapsto> JStr ''usuario'', ''role'' \<mapsto> JStr ''user''] None 1060 = Inr p
       \<and> p ''sub'' = Some (JStr ''usuario'') \<and> p ''role'' = Some (JStr ''user'')"
  by (rule verify_mint_roundtrip
        [where rec = "\<lparr>u_username = ''usuario'', u_role = ''user'',
                       u_password_hash = bcrypt_hash ''L0XuwPOdS5U'', u_is_active = True,
                       u_role_hash = sha256_hex ''user''\<rparr>"])
     (simp_all add: sha256_def sha256_hex_def fake_users_db_def expire_def default_settings_def)

text \<open>
  C1 as stated fails: a token minted for the valid role \<open>user\<close> and a username that the
  user table does not hold is rejected one minute after minting, well before its expiry.
\<close>

theorem verify_mint_absent_user_counterexample:
  "mint_then_verify sha256 default_settings (fake_users_db sha256 bcrypt_hash) 1000
     ''jti-1'' [''sub'' \<mapsto> JStr ''ghost'', ''role'' \<mapsto> JStr ''user''] None 1060
   = Inl (HTTPException 401 ''User not found or inactive'')"
  by (simp add: mint_defs verify_defs example_env)

text \<open>
  C3. For every identity that \<open>authenticate_user\<close> returns, the token that
  \<open>create_access_token\<close> mints from the claims sub = username, role = role carries
  exactly the nine claims sub, role, role\_hash, exp, iat, nbf, jti, iss, aud; iss and aud
  are the two fixed literals, nbf equals iat, which is the clock reading, exp is iat plus
  the configured number of minutes, and role\_hash is the tag that the role table expects
  for the role.
\<close>

theorem minted_claims_exact:
  assumes "snd (authenticate_user H pv db name password) = Inr (Some ident)"
  shows "\<exists>c. create_access_token H cfg now jti
               [''sub'' \<mapsto> JStr (id_username ident), ''role'' \<mapsto> JStr (id_role ident)] None
             = Inr (jwt_encode c (secret_key cfg) (algorithm cfg))
           \<and> dom c = {''sub'', ''role'', ''role_hash'', ''exp'', ''iat'', ''nbf'', ''jti'', ''iss'',
                       ''aud''}
           \<and> c ''sub'' = Some (JStr (id_username ident))
           \<and> c ''role'' = Some (JStr (id_role ident))
           \<and> c ''iss'' = Some (JStr ''teste-tivit-api'')
           \<and> c ''aud'' = Some (JStr ''teste-tivit-client'')
           \<and> c ''jti'' = Some (JStr jti)
           \<and> c ''iat'' = Some (JNum now)
           \<and> c ''nbf'' = c ''iat''
           \<and> c ''exp'' = Some (JNum (now + 60 * access_token_expire_minutes cfg))
           \<and> (\<exists>h. VALID_ROLES H (id_role ident) = Some h \<and> c ''role_hash'' = Some (JStr h))"
proof -
  from authenticate_user_role[OF assms]
  have "id_role ident = ''user'' \<or> id_role ident = ''admin''"
    by (simp add: VALID_ROLES_None)
  then show ?thesis
    by (intro exI[where x = "[''sub'' \<mapsto> JStr (id_username ident),
          ''role'' \<mapsto> JStr (id_role ident),
          ''exp'' \<mapsto> JNum (now + 60 * access_token_expire_minutes cfg),
          ''iat'' \<mapsto> JNum now, ''nbf'' \<mapsto> JNum now, ''jti'' \<mapsto> JStr jti,
          ''iss'' \<mapsto> JStr ''teste-tivit-api'', ''aud'' \<mapsto> JStr ''teste-tivit-client'',
          ''role_hash'' \<mapsto> JStr (hexdigest (H (id_role ident)))]"])
       (auto simp: create_access_token_def expire_def Let_def VALID_ROLES_def)
qed

text \<open>The administrator of the shipped table logs in; the token is minted at second 1000.\<close>

theorem minted_claims_exact_witness:
  "\<exists>c. create_access_token sha256 default_settings 1000 ''jti-1''
               [''sub'' \<mapsto> JStr ''admin'', ''role'' \<mapsto> JStr ''admin''] None
             = Inr (jwt_encode c (secret_key default_settings) (algorithm default_settings))
           \<and> dom c = {''sub'', ''role'', ''role_hash'', ''exp'', ''iat'', ''nbf'', ''jti'', ''iss'',
                       ''aud''}
           \<and> c ''sub'' = Some (JStr ''admin'')
           \<and> c ''role'' = Some (JStr ''admin'')
           \<and> c ''iss'' = Some (JStr ''teste-tivit-api'')
           \<and> c ''aud'' = Some (JStr ''teste-tivit-client'')
           \<and> c ''jti'' = Some (JStr ''jti-1'')
           \<and> c ''iat'' = Some (JNum 1000)
           \<and> c ''nbf'' = c ''iat''
           \<and> c ''exp'' = Some (JNum 2800)
           \<and> c ''role_hash''
               = Some (JStr ''8c6976e5b5410415bde908bd4dee15dfb167a9c873fc4bb8a81f6f2ab448a918'')"
proof -
  have a: "snd (authenticate_user sha256 bcrypt_verify (fake_users_db sha256 bcrypt_hash)
                  ''admin'' ''JKSipm0YH'')
             = Inr (Some \<lparr>id_username = ''admin'', id_role = ''admin'', id_is_active = True\<rparr>)"
    by (simp add: authenticate_user_def verify_password_def validate_role_text VALID_ROLES_def
        hexdigest_ascii example_env)
  show ?thesis
    using minted_claims_exact[OF a, of default_settings 1000 "''jti-1''"]
    by (simp add: default_settings_def VALID_ROLES_def sha256_hex_admin)
qed

section \<open>Rejections by \<open>verify_token\<close>\<close>

text \<open>
  C2, as amended. For every token that the decoding step accepts (signed with the
  configured key and algorithm, inside its validity window, with the expected audience and
  issuer) and that carries a non-empty sub claim, non-empty text as role, and non-empty
  ASCII text as role\_hash, if the role\_hash is not the tag expected for the declared
  role, \<open>verify_token\<close> rejects it with the role-tampering failure. The role-tag check
  comes after the signature check: a token signed with another key is rejected by the
  decoding step, for its signature when its header names the configured algorithm and for
  its algorithm otherwise.
\<close>

theorem tampered_role_rejected:
  "(jwt_decode t (secret_key cfg) [algorithm cfg] ''teste-tivit-client'' ''teste-tivit-api'' now
      = Inr p
    \<and> truthy (p ''sub'')
    \<and> p ''role'' = Some (JStr r) \<and> r \<noteq> []
    \<and> p ''role_hash'' = Some (JStr h) \<and> h \<noteq> [] \<and> is_ascii h
    \<and> VALID_ROLES H r \<noteq> Some h
    \<longrightarrow> verify_token H cfg db now t
          = Inl (HTTPException 401 ''Invalid token: role tampering detected''))
   \<and> (k \<noteq> secret_key cfg
    \<longrightarrow> verify_token H cfg db now (JWS a k c)
          = Inl (HTTPException 401
                  (if a = algorithm cfg then ''Invalid token: Signature verification failed.''
                   else ''Invalid token: The specified alg value is not allowed'')))"
proof (intro conjI impI)
  assume a: "jwt_decode t (secret_key cfg) [algorithm cfg] ''teste-tivit-client'' ''teste-tivit-api'' now
      = Inr p
    \<and> truthy (p ''sub'')
    \<and> p ''role'' = Some (JStr r) \<and> r \<noteq> []
    \<and> p ''role_hash'' = Some (JStr h) \<and> h \<noteq> [] \<and> is_ascii h
    \<and> VALID_ROLES H r \<noteq> Some h"
  then have "validate_role H (p ''role'') (p ''role_hash'') = Inr False"
    by (auto simp: validate_role_text split: option.splits)
  with a show "verify_token H cfg db now t
          = Inl (HTTPException 401 ''Invalid token: role tampering detected'')"
    by (simp add: verify_token_def)
next
  assume "k \<noteq> secret_key cfg"
  then show "verify_token H cfg db now (JWS a k c)
          = Inl (HTTPException 401
                  (if a = algorithm cfg then ''Invalid token: Signature verification failed.''
                   else ''Invalid token: The specified alg value is not allowed''))"
    by (simp add: verify_token_def jwt_decode_def)
qed

text \<open>
  A signed token of \<open>usuario\<close> that declares the role \<open>admin\<close> with the tag of \<open>user\<close>,
  and a token signed with another key whose header names another algorithm.
\<close>

theorem tampered_role_rejected_witness:
  "verify_token sha256 default_settings (fake_users_db sha256 bcrypt_hash) 1000
     (signed [''sub'' \<mapsto> JStr ''usuario'', ''role'' \<mapsto> JStr ''admin'',
              ''role_hash'' \<mapsto> JStr (sha256_hex ''user''), ''exp'' \<mapsto> JNum 2800,
              ''iss'' \<mapsto> JStr ''teste-tivit-api'', ''aud'' \<mapsto> JStr ''teste-tivit-client''])
     = Inl (HTTPException 401 ''Invalid token: role tampering detected'')
   \<and> verify_token sha256 default_settings (fake_users_db sha256 bcrypt_hash) 1000
     (JWS ''HS384'' ''attacker-key'' [''sub'' \<mapsto> JStr ''usuario'', ''role'' \<mapsto> JStr ''admin'',
              ''role_hash'' \<mapsto> JStr (sha256_hex ''user''), ''exp'' \<mapsto> JNum 2800,
              ''iss'' \<mapsto> JStr ''teste-tivit-api'', ''aud'' \<mapsto> JStr ''teste-tivit-client''])
     = Inl (HTTPException 401 ''Invalid token: The specified alg value is not allowed'')"
proof -
  have decoded: "jwt_decode (signed [''sub'' \<mapsto> JStr ''usuario'', ''role'' \<mapsto> JStr ''admin'',
              ''role_hash'' \<mapsto> JStr (sha256_hex ''user''), ''exp'' \<mapsto> JNum 2800,
              ''iss'' \<mapsto> JStr ''teste-tivit-api'', ''aud'' \<mapsto> JStr ''teste-tivit-client''])
      (secret_key default_settings) [algorithm default_settings]
      ''teste-tivit-client'' ''teste-tivit-api'' 1000
     = Inr [''sub'' \<mapsto> JStr ''usuario'', ''role'' \<mapsto> JStr ''admin'',
              ''role_hash'' \<mapsto> JStr (sha256_hex ''user''), ''exp'' \<mapsto> JNum 2800,
              ''iss'' \<mapsto> JStr ''teste-tivit-api'', ''aud'' \<mapsto> JStr ''teste-tivit-client'']"
    by (simp add: jwt_decode_def validators signed_def)
  have facts: "truthy ([''sub'' \<mapsto> JStr ''usuario'', ''role'' \<mapsto> JStr ''admin'',
              ''role_hash'' \<mapsto> JStr (sha256_hex ''user''), ''exp'' \<mapsto> JNum 2800,
              ''iss'' \<mapsto> JStr ''teste-tivit-api'', ''aud'' \<mapsto> JStr ''teste-tivit-client''] ''sub'')
    \<and> [''sub'' \<mapsto> JStr ''usuario'', ''role'' \<mapsto> JStr ''admin'',
              ''role_hash'' \<mapsto> JStr (sha256_hex ''user''), ''exp'' \<mapsto> JNum 2800,
              ''iss'' \<mapsto> JStr ''teste-tivit-api'', ''aud'' \<mapsto> JStr ''teste-tivit-client''] ''role'' = Some (JStr ''admin'') \<and> ''admin'' \<noteq> []
    \<and> [''sub'' \<mapsto> JStr ''usuario'', ''role'' \<mapsto> JStr ''admin'',
              ''role_hash'' \<mapsto> JStr (sha256_hex ''user''), ''exp'' \<mapsto> JNum 2800,
              ''iss'' \<mapsto> JStr ''teste-tivit-api'', ''aud'' \<mapsto> JStr ''teste-tivit-client''] ''role_hash''
        = Some (JStr ''04f8996da763b7a969b1028ee3007569eaf3a635486ddab211d512c85b9df8fb'')
    \<and> ''04f8996da763b7a969b1028ee3007569eaf3a635486ddab211d512c85b9df8fb'' \<noteq> []
    \<and> is_ascii ''04f8996da763b7a969b1028ee3007569eaf3a635486ddab211d512c85b9df8fb''
    \<and> VALID_ROLES sha256 ''admin''
        \<noteq> Some ''04f8996da763b7a969b1028ee3007569eaf3a635486ddab211d512c85b9df8fb''"
    by (simp add: example_env VALID_ROLES_def is_ascii_def)
  have key: "''attacker-key'' \<noteq> secret_key default_settings"
    by (simp add: default_settings_def)
  from tampered_role_rejected
    [of "signed [''sub'' \<mapsto> JStr ''usuario'', ''role'' \<mapsto> JStr ''admin'',
              ''role_hash'' \<mapsto> JStr (sha256_hex ''user''), ''exp'' \<mapsto> JNum 2800,
              ''iss'' \<mapsto> JStr ''teste-tivit-api'', ''aud'' \<mapsto> JStr ''teste-tivit-client'']" default_settings 1000
       "[''sub'' \<mapsto> JStr ''usuario'', ''role'' \<mapsto> JStr ''admin'',
              ''role_hash'' \<mapsto> JStr (sha256_hex ''user''), ''exp'' \<mapsto> JNum 2800,
              ''iss'' \<mapsto> JStr ''teste-tivit-api'', ''aud'' \<mapsto> JStr ''teste-tivit-client'']" "''admin''"
       "''04f8996da763b7a969b1028ee3007569eaf3a635486ddab211d512c85b9df8fb''"
       sha256 "fake_users_db sha256 bcrypt_hash" "''attacker-key''" "''HS384''"
       "[''sub'' \<mapsto> JStr ''usuario'', ''role'' \<mapsto> JStr ''admin'',
              ''role_hash'' \<mapsto> JStr (sha256_hex ''user''), ''exp'' \<mapsto> JNum 2800,
              ''iss'' \<mapsto> JStr ''teste-tivit-api'', ''aud'' \<mapsto> JStr ''teste-tivit-client'']"]
    decoded facts key
  show ?thesis
    by (simp add: default_settings_def)
qed

text \<open>
  C2 as stated fails: the same claim set under a signature made with another key is
  rejected by the signature check, and the role-tag check is never reached.
\<close>

theorem forged_token_signature_counterexample:
  "verify_token sha256 default_settings (fake_users_db sha256 bcrypt_hash) 1000
     (forged [''sub'' \<mapsto> JStr ''usuario'', ''role'' \<mapsto> JStr ''admin'',
              ''role_hash'' \<mapsto> JStr (sha256_hex ''user''), ''exp'' \<mapsto> JNum 2800,
              ''iss'' \<mapsto> JStr ''teste-tivit-api'', ''aud'' \<mapsto> JStr ''teste-tivit-client''])
   = Inl (HTTPException 401 ''Invalid token: Signature verification failed.'')"
  by (simp add: verify_defs example_env)




text \<open>
  C7, as amended. For every token that the decoding step accepts, whose sub claim is a
  non-empty username, and whose role and non-empty role\_hash pass the role-tag check, if
  the user table at verification time has no record of that username, or an inactive one,
  \<open>verify_token\<close> rejects the token with the failure for a user not found or inactive. In
  particular a token minted while the user was active fails this way once the user is
  deactivated.
\<close>

theorem absent_or_inactive_user_rejected:
  assumes "jwt_decode t (secret_key cfg) [algorithm cfg] ''teste-tivit-client'' ''teste-tivit-api'' now
             = Inr p"
    and "p ''sub'' = Some (JStr u)" and "u \<noteq> []"
    and "validate_role H (p ''role'') (p ''role_hash'') = Inr True"
    and "truthy (p ''role_hash'')"
    and "db u = None \<or> (\<exists>rec. db u = Some rec \<and> \<not> u_is_active rec)"
  shows "verify_token H cfg db now t = Inl (HTTPException 401 ''User not found or inactive'')"
proof -
  have "truthy (p ''role'')"
    using validate_role_True[OF assms(4)] by auto
  with assms show ?thesis
    by (auto simp: verify_token_def)
qed

text \<open>
  The token that \<open>create_access_token\<close> mints for \<open>usuario\<close> at second 1000, verified a
  minute later against the table in which \<open>usuario\<close> has been deactivated.
\<close>

theorem absent_or_inactive_user_rejected_witness:
  "create_access_token sha256 default_settings 1000 ''jti-1''
     [''sub'' \<mapsto> JStr ''usuario'', ''role'' \<mapsto> JStr ''user''] None
     = Inr (signed (minted_claims ''usuario'' ''user''))
   \<and> verify_token sha256 default_settings (deactivated_db sha256 bcrypt_hash) 1060
     (signed (minted_claims ''usuario'' ''user''))
     = Inl (HTTPException 401 ''User not found or inactive'')"
proof (rule conjI)
  show "create_access_token sha256 default_settings 1000 ''jti-1''
     [''sub'' \<mapsto> JStr ''usuario'', ''role'' \<mapsto> JStr ''user''] None
     = Inr (signed (minted_claims ''usuario'' ''user''))"
    by (simp add: mint_defs example_env)
next
  show "verify_token sha256 default_settings (deactivated_db sha256 bcrypt_hash) 1060
     (signed (minted_claims ''usuario'' ''user''))
     = Inl (HTTPException 401 ''User not found or inactive'')"
    by (rule absent_or_inactive_user_rejected
          [where u = "''usuario''"
             and p = "(minted_claims ''usuario'' ''user'')"])
       (simp_all add: verify_defs example_env)
qed

text \<open>
  C7 as stated fails: a validly signed, unexpired token minted for a username that the
  table does not hold and for a role outside the role table is rejected by the role-tag
  check, which comes before the user lookup.
\<close>

theorem unknown_role_before_user_lookup_counterexample:
  "mint_then_verify sha256 default_settings (fake_users_db sha256 bcrypt_hash) 1000
     ''jti-1'' [''sub'' \<mapsto> JStr ''ghost'', ''role'' \<mapsto> JStr ''guest''] None 1060
   = Inl (HTTPException 401 ''Invalid token: role tampering detected'')"
  by (simp add: mint_defs verify_defs example_env)

text \<open>
  C8, as amended. For every token that the decoding step accepts (validly signed, inside
  its validity window, with the expected audience and issuer): if its sub claim is missing
  or empty, \<open>verify_token\<close> rejects it with the missing-subject failure; and if its role
  or role\_hash claim is missing or empty, \<open>verify_token\<close> rejects it with the
  missing-role-information failure, or with the missing-subject failure when the sub claim
  is missing or empty too.
\<close>

theorem missing_claims_malformed:
  assumes "jwt_decode t (secret_key cfg) [algorithm cfg] ''teste-tivit-client'' ''teste-tivit-api'' now
             = Inr p"
  shows "(\<not> truthy (p ''sub'')
            \<longrightarrow> verify_token H cfg db now t
                  = Inl (HTTPException 401 ''Invalid token: missing subject''))
       \<and> (\<not> truthy (p ''role'') \<or> \<not> truthy (p ''role_hash'')
            \<longrightarrow> verify_token H cfg db now t
                  = Inl (HTTPException 401
                          (if truthy (p ''sub'') then ''Invalid token: missing role information''
                           else ''Invalid token: missing subject'')))"
  using assms by (simp add: verify_token_def)

text \<open>A signed token with an empty subject, and one with a subject and no role.\<close>

theorem missing_claims_malformed_witness:
  "verify_token sha256 default_settings (fake_users_db sha256 bcrypt_hash) 1060
     (signed [''sub'' \<mapsto> JStr [], ''role'' \<mapsto> JStr ''user'',
              ''role_hash'' \<mapsto> JStr (sha256_hex ''user''), ''exp'' \<mapsto> JNum 2800,
              ''iss'' \<mapsto> JStr ''teste-tivit-api'', ''aud'' \<mapsto> JStr ''teste-tivit-client''])
     = Inl (HTTPException 401 ''Invalid token: missing subject'')
   \<and> verify_token sha256 default_settings (fake_users_db sha256 bcrypt_hash) 1060
     (signed [''sub'' \<mapsto> JStr ''usuario'', ''exp'' \<mapsto> JNum 2800,
              ''iss'' \<mapsto> JStr ''teste-tivit-api'', ''aud'' \<mapsto> JStr ''teste-tivit-client''])
     = Inl (HTTPException 401 ''Invalid token: missing role information'')"
proof -
  have d1: "jwt_decode
      (signed [''sub'' \<mapsto> JStr [], ''role'' \<mapsto> JStr ''user'',
              ''role_hash'' \<mapsto> JStr (sha256_hex ''user''), ''exp'' \<mapsto> JNum 2800,
              ''iss'' \<mapsto> JStr ''teste-tivit-api'', ''aud'' \<mapsto> JStr ''teste-tivit-client''])
      (secret_key default_settings) [algorithm default_settings]
      ''teste-tivit-client'' ''teste-tivit-api'' 1060
    = Inr [''sub'' \<mapsto> JStr [], ''role'' \<mapsto> JStr ''user'',
              ''role_hash'' \<mapsto> JStr (sha256_hex ''user''), ''exp'' \<mapsto> JNum 2800,
              ''iss'' \<mapsto> JStr ''teste-tivit-api'', ''aud'' \<mapsto> JStr ''teste-tivit-client'']"
    by (simp add: jwt_decode_def validators signed_def minted_claims_def)
  have d2: "jwt_decode
      (signed [''sub'' \<mapsto> JStr ''usuario'', ''exp'' \<mapsto> JNum 2800,
              ''iss'' \<mapsto> JStr ''teste-tivit-api'', ''aud'' \<mapsto> JStr ''teste-tivit-client''])
      (secret_key default_settings) [algorithm default_settings]
      ''teste-tivit-client'' ''teste-tivit-api'' 1060
    = Inr [''sub'' \<mapsto> JStr ''usuario'', ''exp'' \<mapsto> JNum 2800,
              ''iss'' \<mapsto> JStr ''teste-tivit-api'', ''aud'' \<mapsto> JStr ''teste-tivit-client'']"
    by (simp add: jwt_decode_def validators signed_def minted_claims_def)
  show ?thesis
    using missing_claims_malformed[OF d1, of sha256 "fake_users_db sha256 bcrypt_hash"]
      missing_claims_malformed[OF d2, of sha256 "fake_users_db sha256 bcrypt_hash"]
    by simp
qed

text \<open>
  C8 as stated fails: a validly signed token without a sub claim that has expired is
  rejected for its expiry; the check for the subject is never reached.
\<close>

theorem expired_token_without_subject_counterexample:
  "mint_then_verify sha256 default_settings (fake_users_db sha256 bcrypt_hash) 1000
     ''jti-1'' [''role'' \<mapsto> JStr ''user''] None 5000
   = Inl (HTTPException 401 ''Invalid token: Signature has expired.'')"
  by (simp add: mint_defs verify_defs example_env)

text \<open>
  C9, as amended. \<open>verify_token\<close> accepts only tokens whose role claim is \<open>user\<close> or
  \<open>admin\<close>, the two keys of the role table. For every token that the decoding step
  accepts and that carries a non-empty sub claim, any other non-empty role text and a
  non-empty role\_hash (the SHA-256 of that role text included), \<open>validate_role\<close> returns
  false and \<open>verify_token\<close> rejects the token with the role-tampering failure.
\<close>

theorem only_valid_roles_accepted:
  "(verify_token H cfg db now t = Inr q
      \<longrightarrow> q ''role'' = Some (JStr ''user'') \<or> q ''role'' = Some (JStr ''admin''))
   \<and> (jwt_decode t (secret_key cfg) [algorithm cfg] ''teste-tivit-client'' ''teste-tivit-api'' now
          = Inr p
        \<and> truthy (p ''sub'') \<and> p ''role'' = Some (JStr r) \<and> r \<noteq> []
        \<and> r \<noteq> ''user'' \<and> r \<noteq> ''admin'' \<and> truthy (p ''role_hash'')
      \<longrightarrow> validate_role H (p ''role'') (p ''role_hash'') = Inr False
          \<and> verify_token H cfg db now t
              = Inl (HTTPException 401 ''Invalid token: role tampering detected''))"
proof (intro conjI impI)
  assume "verify_token H cfg db now t = Inr q"
  then show "q ''role'' = Some (JStr ''user'') \<or> q ''role'' = Some (JStr ''admin'')"
    by (rule verify_token_accepts_valid_role)
next
  assume a: "jwt_decode t (secret_key cfg) [algorithm cfg] ''teste-tivit-client'' ''teste-tivit-api'' now
          = Inr p
        \<and> truthy (p ''sub'') \<and> p ''role'' = Some (JStr r) \<and> r \<noteq> []
        \<and> r \<noteq> ''user'' \<and> r \<noteq> ''admin'' \<and> truthy (p ''role_hash'')"
  then show v: "validate_role H (p ''role'') (p ''role_hash'') = Inr False"
    by (simp add: validate_role_def VALID_ROLES_def)
  from a v show "verify_token H cfg db now t
              = Inl (HTTPException 401 ''Invalid token: role tampering detected'')"
    by (simp add: verify_token_def)
qed

text \<open>
  The token of \<open>usuario\<close> is accepted with the role \<open>user\<close>; the same token with the
  role \<open>guest\<close> and the SHA-256 of \<open>guest\<close> as its tag is rejected.
\<close>

theorem only_valid_roles_accepted_witness:
  "verify_token sha256 default_settings (fake_users_db sha256 bcrypt_hash) 1060
     (signed (minted_claims ''usuario'' ''user''))
     = Inr (minted_claims ''usuario'' ''user'')
   \<and> validate_role sha256 (Some (JStr ''guest'')) (Some (JStr (sha256_hex ''guest'')))
       = Inr False
   \<and> verify_token sha256 default_settings (fake_users_db sha256 bcrypt_hash) 1060
     (signed (minted_claims ''usuario'' ''guest''))
     = Inl (HTTPException 401 ''Invalid token: role tampering detected'')"
proof -
  have accepted: "verify_token sha256 default_settings (fake_users_db sha256 bcrypt_hash) 1060
     (signed (minted_claims ''usuario'' ''user''))
     = Inr (minted_claims ''usuario'' ''user'')"
    by (simp add: verify_defs example_env)
  have decoded: "jwt_decode (signed (minted_claims ''usuario'' ''guest''))
      (secret_key default_settings) [algorithm default_settings]
      ''teste-tivit-client'' ''teste-tivit-api'' 1060
     = Inr (minted_claims ''usuario'' ''guest'')"
    by (simp add: jwt_decode_def validators signed_def minted_claims_def)
  from only_valid_roles_accepted
    [of sha256 default_settings "fake_users_db sha256 bcrypt_hash" 1060
       "signed (minted_claims ''usuario'' ''user'')"
       "(minted_claims ''usuario'' ''user'')"]
    accepted
  have "(minted_claims ''usuario'' ''user'') ''role'' = Some (JStr ''user'')
        \<or> (minted_claims ''usuario'' ''user'') ''role'' = Some (JStr ''admin'')"
    by blast
  moreover
  from only_valid_roles_accepted
    [of sha256 default_settings "fake_users_db sha256 bcrypt_hash" 1060
       "signed (minted_claims ''usuario'' ''guest'')" _
       "(minted_claims ''usuario'' ''guest'')" "''guest''"]
    decoded
  have "validate_role sha256 ((minted_claims ''usuario'' ''guest'') ''role'') ((minted_claims ''usuario'' ''guest'') ''role_hash'') = Inr False
     \<and> verify_token sha256 default_settings (fake_users_db sha256 bcrypt_hash) 1060
     (signed (minted_claims ''usuario'' ''guest''))
     = Inl (HTTPException 401 ''Invalid token: role tampering detected'')"
    by (simp add: sha256_hex_def sha256_hex_guest minted_claims_def)
  ultimately show ?thesis
    using accepted by (simp add: minted_claims_def)
qed

text \<open>
  C9 as stated fails: a correctly signed, unexpired token minted with the role \<open>guest\<close>
  and no subject is rejected for its missing subject, not as role tampering.
\<close>

theorem unknown_role_without_subject_counterexample:
  "mint_then_verify sha256 default_settings (fake_users_db sha256 bcrypt_hash) 1000
     ''jti-1'' [''role'' \<mapsto> JStr ''guest''] None 1060
   = Inl (HTTPException 401 ''Invalid token: missing subject'')"
  by (simp add: mint_defs verify_defs example_env)

section \<open>Authentication\<close>

text \<open>
  C4, as amended. For every active user record whose password verifies and whose stored
  role tag is ASCII text other than the tag that the role table expects for its role,
  \<open>authenticate_user\<close> raises the 500 failure ``Security violation detected'', which is
  not the credentials result \<open>None\<close>.
\<close>

theorem tampered_store_is_integrity_violation:
  assumes "db name = Some rec" and "u_is_active rec"
    and "pv password (u_password_hash rec)"
    and "is_ascii (u_role_hash rec)"
    and "VALID_ROLES H (u_role rec) \<noteq> Some (u_role_hash rec)"
  shows "snd (authenticate_user H pv db name password)
           = Inl (HTTPException 500 ''Security violation detected'')
       \<and> snd (authenticate_user H pv db name password) \<noteq> Inr None"
  using assms
  by (auto simp: authenticate_user_def verify_password_def validate_role_text
      split: option.splits)

text \<open>The edited, still active record of \<open>usuario\<close>, with the right password.\<close>

theorem tampered_store_is_integrity_violation_witness:
  "snd (authenticate_user sha256 bcrypt_verify (tampered_db sha256 bcrypt_hash True)
          ''usuario'' ''L0XuwPOdS5U'')
     = Inl (HTTPException 500 ''Security violation detected'')"
proof -
  have "snd (authenticate_user sha256 bcrypt_verify (tampered_db sha256 bcrypt_hash True)
          ''usuario'' ''L0XuwPOdS5U'')
     = Inl (HTTPException 500 ''Security violation detected'')
     \<and> snd (authenticate_user sha256 bcrypt_verify (tampered_db sha256 bcrypt_hash True)
          ''usuario'' ''L0XuwPOdS5U'') \<noteq> Inr None"
    by (rule tampered_store_is_integrity_violation
          [where rec = "\<lparr>u_username = ''usuario'', u_role = ''admin'',
                         u_password_hash = bcrypt_hash ''L0XuwPOdS5U'', u_is_active = True,
                         u_role_hash = sha256_hex ''user''\<rparr>"])
       (simp_all add: example_env VALID_ROLES_def is_ascii_def)
  then show ?thesis by simp
qed

text \<open>
  C4 as stated fails: for the same edited record once it is inactive, the password
  verifies and the stored tag, ASCII text, does not match, yet \<open>authenticate_user\<close>
  returns \<open>None\<close>, the credentials result, without verifying anything.
\<close>

theorem inactive_tampered_record_counterexample:
  "bcrypt_verify ''L0XuwPOdS5U'' (bcrypt_hash ''L0XuwPOdS5U'')
   \<and> tampered_db sha256 bcrypt_hash False ''usuario''
       = Some \<lparr>u_username = ''usuario'', u_role = ''admin'',
               u_password_hash = bcrypt_hash ''L0XuwPOdS5U'', u_is_active = False,
               u_role_hash = sha256_hex ''user''\<rparr>
   \<and> is_ascii (sha256_hex ''user'')
   \<and> VALID_ROLES sha256 ''admin'' \<noteq> Some (sha256_hex ''user'')
   \<and> authenticate_user sha256 bcrypt_verify (tampered_db sha256 bcrypt_hash False)
         ''usuario'' ''L0XuwPOdS5U''
       = ([], Inr None)"
  by (simp add: authenticate_user_def example_env VALID_ROLES_def is_ascii_def)

text \<open>
  For a wrong password and for an inactive account \<open>authenticate_user\<close> returns \<open>None\<close>;
  for a username that the user table does not hold it makes one call to the verifier, on
  the password and the placeholder, and that call raises.
\<close>

lemma wrong_password_or_inactive_returns_None:
  assumes "db name = Some rec"
    and "\<not> u_is_active rec \<or> \<not> pv password (u_password_hash rec)"
  shows "snd (authenticate_user H pv db name password) = Inr None"
  using assms by (auto simp: authenticate_user_def verify_password_def)

lemma absent_user_raises:
  assumes "db name = None"
  shows "authenticate_user H pv db name password = ([(password, dummy_hash)], Inl ValueError)"
  using assms by (simp add: authenticate_user_def pwd_context_verify_def dummy_hash_not_bcrypt)

text \<open>
  C5. The claim is that for every username absent from the credential store
  \<open>authenticate_user\<close> verifies the password against the placeholder and then returns
  \<open>None\<close>, the result that a wrong password and an inactive account give. The code does
  not: the placeholder is not a well-formed bcrypt hash, the verification raises
  \<^verbatim>\<open>ValueError\<close>, and the \<^verbatim>\<open>return None\<close> that follows is never reached. Here for the
  username \<open>ghost\<close> on the shipped table.
\<close>

theorem absent_user_raises_ValueError:
  "authenticate_user sha256 bcrypt_verify (fake_users_db sha256 bcrypt_hash)
       ''ghost'' ''L0XuwPOdS5U''
     = ([(''L0XuwPOdS5U'', ''$2b$12$dummy.hash.to.prevent.timing.attacks'')], Inl ValueError)"
  by (simp add: authenticate_user_def pwd_context_verify_def bcrypt_shaped_def dummy_hash_def
      fake_users_db_def)



end
